theory Spec2Isabelle
  imports Main "HOL-Library.Sublist" "HOL-Library.Log_Nat"
begin

section \<open>JavaScript values\<close>

text \<open>
  The values that cross the module boundaries of the frontend at run time: what
  \<open>JSON.parse\<close> returns, what \<open>response.data\<close> holds, what a property read yields.
  TypeScript's interfaces are erased at run time, so the code's own checks are what
  decides. A number value is a finite one, held as the rational it denotes (\<open>JSON.parse\<close>
  yields no \<open>NaN\<close>; infinities and the sign of zero are left out of the values, and
  arithmetic has its own result type below). An object is the list of its own properties.
\<close>

datatype jsval =
    Undefined
  | Null
  | Bool bool
  | Num rat
  | Str string
  | Arr "jsval list"
  | Obj "(string \<times> jsval) list"

text \<open>ToBoolean, as used by \<open>if\<close>, \<open>&&\<close>, \<open>||\<close> and \<open>!!\<close>.\<close>

fun truthy :: "jsval \<Rightarrow> bool" where
  "truthy Undefined = False"
| "truthy Null = False"
| "truthy (Bool b) = b"
| "truthy (Num n) = (n \<noteq> 0)"
| "truthy (Str s) = (s \<noteq> [])"
| "truthy (Arr xs) = True"
| "truthy (Obj ps) = True"

text \<open>\<open>a || b\<close>: the left operand when it is truthy, the right operand otherwise.\<close>

definition js_or :: "jsval \<Rightarrow> jsval \<Rightarrow> jsval" where
  "js_or a b = (if truthy a then a else b)"

datatype js_error =
    TypeError
  | SyntaxError
  | UploadFailed nat
  | RateLimitExceeded jsval jsval
  | ApiErrorMessage jsval
  | AxiosError "(nat \<times> jsval) option"

text \<open>
  A property read \<open>v.k\<close> for the property names this program uses (none of them is a
  built-in property of strings, numbers, booleans or arrays): reading from \<open>undefined\<close>
  or \<open>null\<close> throws a TypeError, an object yields its own property or \<open>undefined\<close>,
  every other value yields \<open>undefined\<close>.
\<close>

fun getProp :: "jsval \<Rightarrow> string \<Rightarrow> js_error + jsval" where
  "getProp Undefined k = Inl TypeError"
| "getProp Null k = Inl TypeError"
| "getProp (Obj ps) k = (case map_of ps k of None \<Rightarrow> Inr Undefined | Some v \<Rightarrow> Inr v)"
| "getProp v k = Inr Undefined"

section \<open>Numbers\<close>

text \<open>
  The result of arithmetic on Number values: an IEEE 754 binary64 value, which is
  \<open>NaN\<close>, an infinity, or a finite value (a rational; the two zeros are one value here).
\<close>

datatype number = NaN | PosInfinity | NegInfinity | Finite rat

text \<open>\<open>x\<close> times 2 to the power \<open>k\<close>, for an integer \<open>k\<close> of either sign.\<close>

definition scale2 :: "rat \<Rightarrow> int \<Rightarrow> rat" where
  "scale2 x k = (if 0 \<le> k then x * 2 ^ nat k else x / 2 ^ nat (- k))"

text \<open>
  The binary exponent of a positive rational: the \<open>e\<close> with
  \<open>2^e \<le> x < 2^(e+1)\<close>, from the bit lengths of numerator and denominator.
\<close>

definition floorLog2 :: "rat \<Rightarrow> int" where
  "floorLog2 x =
     (case quotient_of x of
        (a, b) \<Rightarrow> (let k = bitlen a - bitlen b in if scale2 1 k \<le> x then k else k - 1))"

text \<open>The nearest integer, a tie going to the even one.\<close>

definition roundHalfEven :: "rat \<Rightarrow> int" where
  "roundHalfEven x =
     (let f = \<lfloor>x\<rfloor>; d = x - of_int f
      in if d < 1 / 2 then f else if 1 / 2 < d then f + 1 else if even f then f else f + 1)"

text \<open>
  Rounding of an exact result to binary64, to nearest with ties to even: 53 significant
  bits, the spacing never finer than \<open>2^-1074\<close>, and an infinity when the rounded
  magnitude reaches \<open>2^1024\<close>.
\<close>

definition roundDouble :: "rat \<Rightarrow> number" where
  "roundDouble x =
     (if x = 0 then Finite 0
      else
        (let e = floorLog2 \<bar>x\<bar>;
             q = max (e - 52) (- 1074);
             n = roundHalfEven (scale2 \<bar>x\<bar> (- q));
             r = scale2 (of_int n) q
         in if 2 ^ 1024 \<le> r then (if 0 < x then PosInfinity else NegInfinity)
            else Finite (sgn x * r)))"

text \<open>The operator \<open>*\<close> on two numbers.\<close>

fun js_times :: "number \<Rightarrow> number \<Rightarrow> number" where
  "js_times (Finite a) (Finite b) = roundDouble (a * b)"
| "js_times NaN y = NaN"
| "js_times x NaN = NaN"
| "js_times PosInfinity (Finite b) =
     (if b = 0 then NaN else if 0 < b then PosInfinity else NegInfinity)"
| "js_times NegInfinity (Finite b) =
     (if b = 0 then NaN else if 0 < b then NegInfinity else PosInfinity)"
| "js_times (Finite a) PosInfinity =
     (if a = 0 then NaN else if 0 < a then PosInfinity else NegInfinity)"
| "js_times (Finite a) NegInfinity =
     (if a = 0 then NaN else if 0 < a then NegInfinity else PosInfinity)"
| "js_times PosInfinity PosInfinity = PosInfinity"
| "js_times PosInfinity NegInfinity = NegInfinity"
| "js_times NegInfinity PosInfinity = NegInfinity"
| "js_times NegInfinity NegInfinity = PosInfinity"

text \<open>
  ToNumber, the conversion of the operand of an arithmetic operator. On strings, arrays
  and objects it is the platform's reading of a text as a number, which is a parameter.
\<close>

type_synonym coercion = "jsval \<Rightarrow> number"

fun toNumber :: "coercion \<Rightarrow> jsval \<Rightarrow> number" where
  "toNumber coerce Undefined = NaN"
| "toNumber coerce Null = Finite 0"
| "toNumber coerce (Bool b) = Finite (if b then 1 else 0)"
| "toNumber coerce (Num x) = Finite x"
| "toNumber coerce v = coerce v"

section \<open>Strings\<close>

text \<open>
  Strings are texts of ASCII characters. \<open>String.prototype.toLowerCase\<close> maps the
  letters A to Z to a to z and leaves every other ASCII character as it is; what it does
  to letters outside ASCII is outside this model.
\<close>

definition toLowerChar :: "char \<Rightarrow> char" where
  "toLowerChar c =
     (let n = (of_char c :: nat) in if 65 \<le> n \<and> n \<le> 90 then char_of (n + 32) else c)"

definition toLowerCase :: "string \<Rightarrow> string" where
  "toLowerCase s = map toLowerChar s"

text \<open>
  \<open>s.split(sep)\<close> for a one-character separator: the pieces between the separators, so
  a string with n separators gives n + 1 pieces and the result is never empty.
\<close>

fun js_split :: "char \<Rightarrow> string \<Rightarrow> string list" where
  "js_split sep [] = [[]]"
| "js_split sep (c # cs) =
     (if c = sep then [] # js_split sep cs
      else (c # hd (js_split sep cs)) # tl (js_split sep cs))"

text \<open>\<open>Array.prototype.pop\<close>: the last element, \<open>undefined\<close> on an empty array.\<close>

definition pop :: "'a list \<Rightarrow> 'a option" where
  "pop xs = (if xs = [] then None else Some (last xs))"

fun startsWith :: "string \<Rightarrow> string \<Rightarrow> bool" where
  "startsWith s [] = True"
| "startsWith [] (p # ps) = False"
| "startsWith (c # cs) (p # ps) = (c = p \<and> startsWith cs ps)"

section \<open>The storage API: helpers\<close>

text \<open>
  \<^verbatim>\<open>fileName.split('.').pop()?.toLowerCase() || ''\<close>
\<close>

definition getFileExtension :: "string \<Rightarrow> string" where
  "getFileExtension fileName =
     (case pop (js_split (CHR ''.'') fileName) of
        None \<Rightarrow> []
      | Some piece \<Rightarrow> (let l = toLowerCase piece in if l = [] then [] else l))"

datatype FileType = IMAGE | AUDIO

text \<open>
  \<^verbatim>\<open>mimeType.startsWith('image/') ? 'IMAGE' : 'AUDIO'\<close>
\<close>

definition getFileType :: "string \<Rightarrow> FileType" where
  "getFileType mimeType = (if startsWith mimeType ''image/'' then IMAGE else AUDIO)"

section \<open>The browser, the network and the state of the application\<close>

text \<open>
  A \<open>File\<close> of the browser, with the two attributes the code reads (\<open>file.name\<close>,
  \<open>file.type\<close>).
\<close>

record File =
  file_name :: string
  file_type :: string

datatype http_method = GET | POST | PUT | PATCH | DELETE

text \<open>
  What leaves the browser: a call through the axios instance (method, path, body or
  query parameters, the Authorization header if any), or the direct \<open>fetch\<close> PUT of
  \<open>uploadFile\<close> (target, Content-Type header, body).
\<close>

datatype request =
    ApiRequest http_method string jsval "string option"
  | FetchPut jsval string File

datatype reply = NetworkFailure | HttpResponse nat jsval

text \<open>
  The far side is any function from the requests made so far and the present request to
  a reply: every sequence of replies, failures included, is one such function.
\<close>

type_synonym network = "request list \<Rightarrow> request \<Rightarrow> reply"

datatype upload_kind = image | audio

text \<open>
  Everything the modelled code reads or writes: \<open>localStorage\<close>,
  \<open>window.location.href\<close>, the requests sent, the React state of \<open>AuthProvider\<close>
  (\<open>user\<close>, \<open>isLoading\<close>) and of \<open>CreateIncidentPage\<close> (the two URL lists, the
  uploading flag, the form's root error).
\<close>

record world =
  localStorage :: "string \<rightharpoonup> string"
  href :: string
  requests :: "request list"
  user :: jsval
  isLoading :: bool
  uploadedImages :: "jsval list"
  uploadedAudio :: "jsval list"
  isUploading :: bool
  rootError :: "string option"

definition removeItems :: "world \<Rightarrow> world" where
  \<comment> \<open>\<open>localStorage.removeItem('safesnap_token'); localStorage.removeItem('safesnap_user')\<close>\<close>
  "removeItems w =
     w\<lparr>localStorage := (localStorage w)(''safesnap_token'' := None, ''safesnap_user'' := None)\<rparr>"

section \<open>The API client\<close>

text \<open>
  The request interceptor: the Authorization header it adds, when the stored token is
  truthy.
\<close>

definition requestInterceptor :: "world \<Rightarrow> string option" where
  "requestInterceptor w =
     (case localStorage w ''safesnap_token'' of
        None \<Rightarrow> None
      | Some token \<Rightarrow> if token = [] then None else Some (''Bearer '' @ token))"

text \<open>
  The response interceptor's error handler. Its argument is \<open>error.response\<close> (status
  and data), absent when no response arrived. Every path throws; the messages of the
  thrown errors are kept as the values they are built from.
\<close>

definition responseErrorInterceptor :: "(nat \<times> jsval) option \<Rightarrow> world \<Rightarrow> js_error \<times> world" where
  "responseErrorInterceptor response w =
     (let w1 = (if map_option fst response = Some 401
                then (removeItems w)\<lparr>href := ''/login''\<rparr> else w)
      in case response of
           None \<Rightarrow> (AxiosError response, w1)
         | Some (status, data) \<Rightarrow>
             if status = 429 then
               (case getProp data ''message'' of
                  Inl e \<Rightarrow> (e, w1)
                | Inr m \<Rightarrow>
                    (case getProp data ''retryAfterSeconds'' of
                       Inl e \<Rightarrow> (e, w1)
                     | Inr r \<Rightarrow> (RateLimitExceeded m r, w1)))
             else if truthy data then
               (case getProp data ''message'' of
                  Inl e \<Rightarrow> (e, w1)
                | Inr m \<Rightarrow> (ApiErrorMessage (js_or m (Str ''An error occurred'')), w1))
             else (AxiosError response, w1))"

text \<open>
  One call through the axios instance: the request interceptor, the exchange, then
  either the response (its \<open>data\<close>) for a status from 200 to 299, or the error handler.
\<close>

definition apiClient_request ::
  "network \<Rightarrow> http_method \<Rightarrow> string \<Rightarrow> jsval \<Rightarrow> world \<Rightarrow> (js_error + jsval) \<times> world" where
  "apiClient_request net m path payload w =
     (let req = ApiRequest m path payload (requestInterceptor w);
          w1 = w\<lparr>requests := requests w @ [req]\<rparr>
      in case net (requests w) req of
           NetworkFailure \<Rightarrow>
             (case responseErrorInterceptor None w1 of (e, w2) \<Rightarrow> (Inl e, w2))
         | HttpResponse status data \<Rightarrow>
             if 200 \<le> status \<and> status < 300 then (Inr data, w1)
             else (case responseErrorInterceptor (Some (status, data)) w1 of
                     (e, w2) \<Rightarrow> (Inl e, w2)))"

section \<open>The storage API\<close>

text \<open>
  \<open>USE_MOCK_S3\<close> is the constant \<open>false\<close>, so the mock branches never run and are
  left out.
\<close>

record PresignedUploadResponse =
  uploadUrl :: jsval
  fileUrl :: jsval
  expiresInSeconds :: number

fun FileType_string :: "FileType \<Rightarrow> string" where
  "FileType_string IMAGE = ''IMAGE''"
| "FileType_string AUDIO = ''AUDIO''"

definition uploadUrlBody :: "string \<Rightarrow> string \<Rightarrow> jsval" where
  "uploadUrlBody fileName fileType =
     (let fileExtension = getFileExtension fileName;
          backendFileType = getFileType fileType
      in Obj [(''fileType'', Str (FileType_string backendFileType)),
              (''fileExtension'', Str fileExtension)])"

definition getUploadUrl ::
  "coercion \<Rightarrow> network \<Rightarrow> string \<Rightarrow> string \<Rightarrow> world
     \<Rightarrow> (js_error + PresignedUploadResponse) \<times> world" where
  "getUploadUrl coerce net fileName fileType w =
     (case apiClient_request net POST ''/s3/upload-url'' (uploadUrlBody fileName fileType) w of
        (Inl e, w1) \<Rightarrow> (Inl e, w1)
      | (Inr data, w1) \<Rightarrow>
          (case getProp data ''uploadUrl'' of Inl e \<Rightarrow> (Inl e, w1) | Inr u \<Rightarrow>
           case getProp data ''s3Url'' of Inl e \<Rightarrow> (Inl e, w1) | Inr a \<Rightarrow>
           case getProp data ''fileUrl'' of Inl e \<Rightarrow> (Inl e, w1) | Inr b \<Rightarrow>
           case getProp data ''downloadUrl'' of Inl e \<Rightarrow> (Inl e, w1) | Inr c \<Rightarrow>
           case getProp data ''expiresInMinutes'' of Inl e \<Rightarrow> (Inl e, w1) | Inr m \<Rightarrow>
             (Inr \<lparr>uploadUrl = u,
                   fileUrl = js_or (js_or a b) c,
                   expiresInSeconds = js_times (toNumber coerce m) (Finite 60)\<rparr>, w1)))"

text \<open>
  \<open>fetch\<close> rejects with a TypeError when no response arrives; \<open>response.ok\<close> is a
  status from 200 to 299.
\<close>

definition uploadFile :: "network \<Rightarrow> jsval \<Rightarrow> File \<Rightarrow> world \<Rightarrow> (js_error + unit) \<times> world" where
  "uploadFile net url file w =
     (let req = FetchPut url (file_type file) file;
          w1 = w\<lparr>requests := requests w @ [req]\<rparr>
      in case net (requests w) req of
           NetworkFailure \<Rightarrow> (Inl TypeError, w1)
         | HttpResponse status data \<Rightarrow>
             if 200 \<le> status \<and> status \<le> 299 then (Inr (), w1)
             else (Inl (UploadFailed status), w1))"

definition fileExists :: "network \<Rightarrow> string \<Rightarrow> world \<Rightarrow> (js_error + jsval) \<times> world" where
  "fileExists net url w =
     (case apiClient_request net GET ''/s3/file-exists'' (Obj [(''s3Url'', Str url)]) w of
        (Inl e, w1) \<Rightarrow> (Inr (Bool False), w1)
      | (Inr data, w1) \<Rightarrow>
          (case getProp data ''exists'' of
             Inl e \<Rightarrow> (Inr (Bool False), w1)
           | Inr v \<Rightarrow> (Inr v, w1)))"

section \<open>The session: AuthContext\<close>

datatype Role = WORKER | MANAGER

fun Role_string :: "Role \<Rightarrow> string" where
  "Role_string WORKER = ''WORKER''"
| "Role_string MANAGER = ''MANAGER''"

text \<open>The interface \<open>User\<close>; its field \<open>id\<close>, a number, is \<open>id_user\<close> here.\<close>

record User =
  id_user :: rat
  name :: string
  email :: string
  role :: Role

text \<open>A \<open>User\<close> as the object it is at run time.\<close>

definition User_obj :: "User \<Rightarrow> jsval" where
  "User_obj u =
     Obj [(''id'', Num (id_user u)), (''name'', Str (name u)),
          (''email'', Str (email u)), (''role'', Str (Role_string (role u)))]"

text \<open>\<open>typeof v === 'object'\<close>\<close>

fun typeof_object :: "jsval \<Rightarrow> bool" where
  "typeof_object Null = True"
| "typeof_object (Arr xs) = True"
| "typeof_object (Obj ps) = True"
| "typeof_object v = False"

text \<open>
  \<open>v.k\<close> as a condition. The reads below are guarded by \<open>userData &&\<close>; a TypeError
  would end in the \<open>catch\<close> branch, which does what the \<open>else\<close> branch does.
\<close>

definition truthyProp :: "jsval \<Rightarrow> string \<Rightarrow> bool" where
  "truthyProp v k = (case getProp v k of Inl e \<Rightarrow> False | Inr x \<Rightarrow> truthy x)"

text \<open>
  The effect that runs once when \<open>AuthProvider\<close> mounts. \<open>JSON.parse\<close> belongs to the
  platform and is a parameter: \<open>None\<close> is its SyntaxError.
\<close>

definition restore :: "(string \<Rightarrow> jsval option) \<Rightarrow> world \<Rightarrow> world" where
  "restore JSON_parse w =
     (let w1 =
        (case (localStorage w ''safesnap_token'', localStorage w ''safesnap_user'') of
           (Some storedToken, Some storedUser) \<Rightarrow>
             if storedToken \<noteq> [] \<and> storedUser \<noteq> [] then
               (case JSON_parse storedUser of
                  None \<Rightarrow> removeItems w
                | Some userData \<Rightarrow>
                    if truthy userData \<and> typeof_object userData \<and> truthyProp userData ''id''
                       \<and> truthyProp userData ''email'' \<and> truthyProp userData ''role''
                    then w\<lparr>user := userData\<rparr>
                    else removeItems w)
             else w
         | _ \<Rightarrow> w)
      in w1\<lparr>isLoading := False\<rparr>)"

text \<open>\<open>JSON.stringify\<close> is a parameter as well.\<close>

definition login :: "(jsval \<Rightarrow> string) \<Rightarrow> string \<Rightarrow> User \<Rightarrow> world \<Rightarrow> world" where
  "login JSON_stringify token userData w =
     w\<lparr>localStorage := (localStorage w)
          (''safesnap_token'' \<mapsto> token,
           ''safesnap_user'' \<mapsto> JSON_stringify (User_obj userData)),
       user := User_obj userData\<rparr>"

definition logout :: "world \<Rightarrow> world" where
  "logout w = (removeItems w)\<lparr>user := Null\<rparr>"

text \<open>
  \<open>isAuthenticated\<close> is computed when \<open>AuthProvider\<close> renders: this is the value a
  render in the world \<open>w\<close> gives, and what consumers read is the value of the last
  render. A render follows every change of the React state (the mount effect, \<open>login\<close>,
  \<open>logout\<close>), not a change of \<open>localStorage\<close> alone.
\<close>

definition isAuthenticated :: "world \<Rightarrow> bool" where
  "isAuthenticated w =
     (truthy (user w) \<and>
      (case localStorage w ''safesnap_token'' of None \<Rightarrow> False | Some t \<Rightarrow> t \<noteq> []))"

text \<open>
  A page load (a fresh process over the same storage, which is also what an assignment
  to \<open>window.location.href\<close> brings about): \<open>localStorage\<close> and the address survive,
  every React state starts from its \<open>useState\<close> initial value, and the mount effect
  of \<open>AuthProvider\<close> runs.
\<close>

definition initialState :: "world \<Rightarrow> world" where
  "initialState w =
     w\<lparr>user := Null, isLoading := True, uploadedImages := [], uploadedAudio := [],
       isUploading := False, rootError := None\<rparr>"

definition pageLoad :: "(string \<Rightarrow> jsval option) \<Rightarrow> world \<Rightarrow> world" where
  "pageLoad JSON_parse w = restore JSON_parse (initialState w)"

section \<open>The upload form: CreateIncidentPage\<close>

definition addToState :: "upload_kind \<Rightarrow> jsval \<Rightarrow> world \<Rightarrow> world" where
  "addToState t url w =
     (case t of
        image \<Rightarrow> w\<lparr>uploadedImages := uploadedImages w @ [url]\<rparr>
      | audio \<Rightarrow> w\<lparr>uploadedAudio := uploadedAudio w @ [url]\<rparr>)"

text \<open>
  The \<open>for\<close> loop inside the \<open>try\<close>: the first rejected \<open>await\<close> leaves the loop.
\<close>

fun uploadLoop ::
  "coercion \<Rightarrow> network \<Rightarrow> File list \<Rightarrow> upload_kind \<Rightarrow> world
     \<Rightarrow> (js_error + unit) \<times> world" where
  "uploadLoop coerce net [] t w = (Inr (), w)"
| "uploadLoop coerce net (file # files) t w =
     (case getUploadUrl coerce net (file_name file) (file_type file) w of
        (Inl e, w1) \<Rightarrow> (Inl e, w1)
      | (Inr grant, w1) \<Rightarrow>
          (case uploadFile net (uploadUrl grant) file w1 of
             (Inl e, w2) \<Rightarrow> (Inl e, w2)
           | (Inr u, w2) \<Rightarrow>
               uploadLoop coerce net files t (addToState t (fileUrl grant) w2)))"

text \<open>\<open>files\<close> is a \<open>FileList\<close> or \<open>null\<close>.\<close>

definition handleFileUpload ::
  "coercion \<Rightarrow> network \<Rightarrow> File list option \<Rightarrow> upload_kind \<Rightarrow> world \<Rightarrow> world" where
  "handleFileUpload coerce net files t w =
     (case files of
        None \<Rightarrow> w
      | Some fs \<Rightarrow>
          if fs = [] then w
          else
            (case uploadLoop coerce net fs t (w\<lparr>isUploading := True\<rparr>) of
               (Inl e, w1) \<Rightarrow>
                 w1\<lparr>rootError := Some ''Failed to upload files. Please try again.'',
                    isUploading := False\<rparr>
             | (Inr u, w1) \<Rightarrow> w1\<lparr>isUploading := False\<rparr>))"

text \<open>
  \<open>prev.filter(u => u !== url)\<close>; the list holds strings (or \<open>undefined\<close>), which
  \<open>!==\<close> compares by value.
\<close>

definition removeFile :: "jsval \<Rightarrow> upload_kind \<Rightarrow> world \<Rightarrow> world" where
  "removeFile url t w =
     (case t of
        image \<Rightarrow> w\<lparr>uploadedImages := filter (\<lambda>u. u \<noteq> url) (uploadedImages w)\<rparr>
      | audio \<Rightarrow> w\<lparr>uploadedAudio := filter (\<lambda>u. u \<noteq> url) (uploadedAudio w)\<rparr>)"

section \<open>Notions the claims are stated with\<close>

text \<open>A field of a response that is there and is not the empty string.\<close>

definition presentAndNonEmpty :: "jsval \<Rightarrow> bool" where
  "presentAndNonEmpty v = (v \<noteq> Undefined \<and> v \<noteq> Null \<and> v \<noteq> Str [])"

text \<open>What a URL field of a response can hold: a string, or nothing.\<close>

fun stringOrAbsent :: "jsval \<Rightarrow> bool" where
  "stringOrAbsent Undefined = True"
| "stringOrAbsent Null = True"
| "stringOrAbsent (Str s) = True"
| "stringOrAbsent v = False"

text \<open>An object that has the property \<open>k\<close>.\<close>

definition hasProp :: "jsval \<Rightarrow> string \<Rightarrow> bool" where
  "hasProp v k = (case v of Obj ps \<Rightarrow> map_of ps k \<noteq> None | _ \<Rightarrow> False)"

text \<open>
  A persisted pair that must not be restored: an entry is missing, or the user blob does
  not parse, or it parses to something that lacks one of \<open>id\<close>, \<open>email\<close>, \<open>role\<close>.
\<close>

definition persistedSessionInvalid :: "(string \<Rightarrow> jsval option) \<Rightarrow> world \<Rightarrow> bool" where
  "persistedSessionInvalid JSON_parse w =
     (case (localStorage w ''safesnap_token'', localStorage w ''safesnap_user'') of
        (Some storedToken, Some storedUser) \<Rightarrow>
          (case JSON_parse storedUser of
             None \<Rightarrow> True
           | Some userData \<Rightarrow>
               \<not> (hasProp userData ''id'' \<and> hasProp userData ''email''
                  \<and> hasProp userData ''role''))
      | _ \<Rightarrow> True)"

text \<open>Both entries are stored and neither is the empty string.\<close>

definition bothStored :: "world \<Rightarrow> bool" where
  "bothStored w =
     (case (localStorage w ''safesnap_token'', localStorage w ''safesnap_user'') of
        (Some storedToken, Some storedUser) \<Rightarrow> storedToken \<noteq> [] \<and> storedUser \<noteq> []
      | _ \<Rightarrow> False)"

text \<open>The result list of a category.\<close>

definition uploaded :: "upload_kind \<Rightarrow> world \<Rightarrow> jsval list" where
  "uploaded t w = (case t of image \<Rightarrow> uploadedImages w | audio \<Rightarrow> uploadedAudio w)"

section \<open>Concrete inputs\<close>

definition world0 :: world where
  "world0 = \<lparr>localStorage = Map.empty, href = ''/worker/create-incident'', requests = [],
     user = Null, isLoading = False, uploadedImages = [], uploadedAudio = [],
     isUploading = False, rootError = None\<rparr>"

text \<open>
  A backend that grants every upload, with addresses numbered by the requests seen so
  far, and a bucket that refuses the file named \<open>broken.png\<close>.
\<close>

definition demoNet :: network where
  "demoNet history req =
     (case req of
        ApiRequest m path payload auth \<Rightarrow>
          HttpResponse 200
            (Obj [(''uploadUrl'', Str (''U'' @ replicate (length history) (CHR ''+''))),
                  (''fileUrl'', Str (''F'' @ replicate (length history) (CHR ''+''))),
                  (''expiresInMinutes'', Num 60)])
      | FetchPut url contentType file \<Rightarrow>
          if file_name file = ''broken.png'' then HttpResponse 500 Undefined
          else HttpResponse 200 Undefined)"



text \<open>A reading of texts as numbers that finds no number in any of them.\<close>

definition demoCoerce :: coercion where
  "demoCoerce v = NaN"

definition unauthorizedNet :: network where
  "unauthorizedNet history req = HttpResponse 401 (Obj [(''message'', Str ''Unauthorized'')])"

definition fileA :: File where
  "fileA = \<lparr>file_name = ''a.png'', file_type = ''image/png''\<rparr>"

definition fileBroken :: File where
  "fileBroken = \<lparr>file_name = ''broken.png'', file_type = ''image/png''\<rparr>"

definition fileC :: File where
  "fileC = \<lparr>file_name = ''c.png'', file_type = ''image/png''\<rparr>"

definition demoUser :: User where
  "demoUser = \<lparr>id_user = 1, name = ''a'', email = ''a@x.com'', role = WORKER\<rparr>"

definition zeroIdUser :: User where
  "zeroIdUser = \<lparr>id_user = 0, name = ''a'', email = ''a@x.com'', role = WORKER\<rparr>"

definition noEmailUser :: User where
  "noEmailUser = \<lparr>id_user = 1, name = ''a'', email = [], role = WORKER\<rparr>"

definition demoUserJson :: string where
  \<open>demoUserJson = ''{"id":1,"name":"a","email":"a@x.com","role":"WORKER"}''\<close>

definition zeroIdUserJson :: string where
  \<open>zeroIdUserJson = ''{"id":0,"name":"a","email":"a@x.com","role":"WORKER"}''\<close>

definition noEmailUserJson :: string where
  \<open>noEmailUserJson = ''{"id":1,"name":"a","email":"","role":"WORKER"}''\<close>

text \<open>
  \<open>JSON.stringify\<close> and \<open>JSON.parse\<close> on the texts of the three users above; every
  other text is a SyntaxError here.
\<close>

definition demoStringify :: "jsval \<Rightarrow> string" where
  "demoStringify v =
     (if v = User_obj demoUser then demoUserJson
      else if v = User_obj zeroIdUser then zeroIdUserJson
      else if v = User_obj noEmailUser then noEmailUserJson
      else ''null'')"

definition demoParse :: "string \<Rightarrow> jsval option" where
  "demoParse s =
     (if s = demoUserJson then Some (User_obj demoUser)
      else if s = zeroIdUserJson then Some (User_obj zeroIdUser)
      else if s = noEmailUserJson then Some (User_obj noEmailUser)
      else if s = ''null'' then Some Null
      else None)"

text \<open>A stored pair whose user blob was cut short, and a token stored alone.\<close>

definition corruptWorld :: world where
  \<open>corruptWorld = world0\<lparr>localStorage :=
     [''safesnap_token'' \<mapsto> ''T1'', ''safesnap_user'' \<mapsto> ''{"id":1,"na'']\<rparr>\<close>

definition loneTokenWorld :: world where
  "loneTokenWorld = world0\<lparr>localStorage := [''safesnap_token'' \<mapsto> ''T1'']\<rparr>"

section \<open>Properties of the helpers\<close>

lemma js_split_not_Nil: "js_split sep s \<noteq> []"
  by (induction s) auto

lemma js_split_no_sep: "sep \<notin> set s \<Longrightarrow> js_split sep s = [s]"
  by (induction s) auto

lemma last_js_split_append:
  "sep \<notin> set e \<Longrightarrow> last (js_split sep (p @ sep # e)) = e"
proof (induction p)
  case Nil
  then show ?case by (simp add: js_split_no_sep)
next
  case (Cons c p)
  have ne: "js_split sep (p @ sep # e) \<noteq> []" by (rule js_split_not_Nil)
  show ?case
  proof (cases "c = sep")
    case True
    with Cons ne show ?thesis by simp
  next
    case False
    have "tl (js_split sep (p @ sep # e)) \<noteq> []"
      by (induction p) (auto simp: js_split_not_Nil)
    with Cons False ne show ?thesis by (simp add: last_tl)
  qed
qed

lemma toLowerCase_Nil_iff: "toLowerCase s = [] \<longleftrightarrow> s = []"
  by (simp add: toLowerCase_def)

lemma getFileExtension_dot:
  "CHR ''.'' \<notin> set e \<Longrightarrow> getFileExtension (p @ CHR ''.'' # e) = toLowerCase e"
  by (simp add: getFileExtension_def pop_def js_split_not_Nil last_js_split_append
      Let_def toLowerCase_Nil_iff)

lemma getFileExtension_no_dot:
  "CHR ''.'' \<notin> set n \<Longrightarrow> getFileExtension n = toLowerCase n"
  by (simp add: getFileExtension_def pop_def js_split_no_sep Let_def toLowerCase_Nil_iff)

lemma startsWith_iff: "startsWith s p \<longleftrightarrow> (\<exists>r. s = p @ r)"
  by (induction s p rule: startsWith.induct) auto

section \<open>Properties of the numbers\<close>

lemma scale2_powi: "scale2 x k = x * 2 powi k"
  by (simp add: scale2_def power_int_def field_simps)

lemma bitlen_powi_bounds:
  assumes "0 < a"
  shows "(2::rat) powi (bitlen a - 1) \<le> of_int a" and "(of_int a :: rat) < 2 powi bitlen a"
proof -
  have l: "1 \<le> bitlen a" using assms by (simp add: bitlen_alt_def)
  have "(2::int) ^ nat (bitlen a - 1) \<le> a" using bitlen_bounds [OF assms] ..
  then have "(of_int ((2::int) ^ nat (bitlen a - 1)) :: rat) \<le> of_int a"
    by (simp only: of_int_le_iff)
  then show "(2::rat) powi (bitlen a - 1) \<le> of_int a"
    using l by (simp add: power_int_def)
  have "a < (2::int) ^ nat (bitlen a)" using bitlen_bounds [OF assms] ..
  then have "(of_int a :: rat) < of_int ((2::int) ^ nat (bitlen a))"
    by (simp only: of_int_less_iff)
  then show "(of_int a :: rat) < 2 powi bitlen a"
    using l by (simp add: power_int_def)
qed

lemma floorLog2_bounds:
  assumes "0 < x"
  shows "2 powi floorLog2 x \<le> x \<and> x < 2 powi (floorLog2 x + 1)"
proof -
  obtain a b where ab: "quotient_of x = (a, b)" by fastforce
  then have b: "0 < b" by (rule quotient_of_denom_pos)
  have x: "x = of_int a / of_int b" using ab by (rule quotient_of_div)
  have a: "0 < a" using assms b x by (simp add: zero_less_divide_iff)
  define k where "k = bitlen a - bitlen b"
  have up: "x < 2 powi (k + 1)"
  proof -
    have "x < 2 powi bitlen a / of_int b"
      unfolding x using bitlen_powi_bounds(2) [OF a] b by (simp add: divide_strict_right_mono)
    also have "\<dots> \<le> 2 powi bitlen a / 2 powi (bitlen b - 1)"
      using bitlen_powi_bounds(1) [OF b] b by (intro divide_left_mono) (simp_all add: zero_less_mult_iff)
    also have "\<dots> = 2 powi (k + 1)"
      by (simp add: k_def power_int_diff power_int_add)
    finally show ?thesis .
  qed
  have lo: "2 powi (k - 1) \<le> x"
  proof -
    have "(2::rat) powi (k - 1) = 2 powi (bitlen a - 1) / 2 powi bitlen b"
      by (simp add: k_def power_int_diff power_int_add)
    also have "\<dots> \<le> of_int a / 2 powi bitlen b"
      using bitlen_powi_bounds(1) [OF a] by (intro divide_right_mono) simp_all
    also have "\<dots> \<le> of_int a / of_int b"
      using bitlen_powi_bounds(2) [OF b] a b by (intro divide_left_mono) (simp_all add: zero_less_mult_iff)
    finally show ?thesis by (simp add: x)
  qed
  show ?thesis
    using up lo
    by (simp add: floorLog2_def ab Let_def k_def [symmetric] scale2_powi not_le)
qed

lemma bitlen_one: "bitlen 1 = 1"
  by (simp add: bitlen_alt_def)

lemma floorLog2_of_int:
  assumes "0 < p"
  shows "floorLog2 (of_int p) = bitlen p - 1"
proof -
  have "1 \<le> bitlen p" using assms by (simp add: bitlen_alt_def)
  moreover have "(2::int) ^ nat (bitlen p - 1) \<le> p" using bitlen_bounds [OF assms] ..
  then have "(of_int ((2::int) ^ nat (bitlen p - 1)) :: rat) \<le> of_int p"
    by (simp only: of_int_le_iff)
  ultimately show ?thesis
    by (simp add: floorLog2_def scale2_def bitlen_one)
qed

lemma bitlen_safe:
  assumes "0 < p" and "p \<le> 9007199254740991"
  shows "bitlen p \<le> 53"
proof (rule ccontr)
  assume "\<not> bitlen p \<le> 53"
  then have "53 \<le> nat (bitlen p - 1)" by simp
  then have "(2::int) ^ 53 \<le> 2 ^ nat (bitlen p - 1)"
    by (intro power_increasing) simp_all
  also have "\<dots> \<le> p" using bitlen_bounds [OF assms(1)] ..
  finally show False using assms(2) by simp
qed

lemma roundHalfEven_of_int: "roundHalfEven (of_int z) = z"
  by (simp add: roundHalfEven_def)

lemma roundDouble_pos_int_exact:
  assumes "0 < p" and "p \<le> 9007199254740991"
  shows "roundDouble (of_int p) = Finite (of_int p)"
proof -
  define q where "q = max (bitlen p - 1 - 52) (- 1074)"
  have q: "q \<le> 0" using bitlen_safe [OF assms] by (simp add: q_def)
  have s: "scale2 \<bar>of_int p\<bar> (- q) = of_int (p * 2 ^ nat (- q))"
    using q assms(1) by (simp add: scale2_def)
  have r: "scale2 (of_int (p * 2 ^ nat (- q))) q = of_int p"
    using q by (cases "q = 0") (simp_all add: scale2_def)
  have "(of_int p :: rat) \<le> of_int 9007199254740991"
    using assms(2) by (simp only: of_int_le_iff)
  also have "\<dots> < 2 ^ 53" by simp
  also have "(2::rat) ^ 53 < 2 ^ 1024" by (rule power_strict_increasing) simp_all
  finally have small: "\<not> (2::rat) ^ 1024 \<le> of_int p" by (simp only: not_le)
  have e: "floorLog2 \<bar>of_int p :: rat\<bar> = bitlen p - 1"
    using floorLog2_of_int [OF assms(1)] assms(1) by simp
  show ?thesis
    using assms(1) small
    unfolding roundDouble_def e Let_def q_def [symmetric] s roundHalfEven_of_int r
    by simp
qed

lemma roundDouble_neg: "roundDouble (- x) = (case roundDouble x of
    PosInfinity \<Rightarrow> NegInfinity | NegInfinity \<Rightarrow> PosInfinity | Finite r \<Rightarrow> Finite (- r) | NaN \<Rightarrow> NaN)"
  by (simp add: roundDouble_def Let_def)

lemma roundDouble_int_exact:
  assumes "\<bar>p\<bar> \<le> 9007199254740991"
  shows "roundDouble (of_int p) = Finite (of_int p)"
proof -
  consider "p = 0" | "0 < p" | "p < 0" by linarith
  then show ?thesis
  proof cases
    case 1
    then show ?thesis by (simp add: roundDouble_def)
  next
    case 2
    with assms show ?thesis by (simp add: roundDouble_pos_int_exact)
  next
    case 3
    with assms have "roundDouble (of_int (- p)) = Finite (of_int (- p))"
      by (intro roundDouble_pos_int_exact) simp_all
    then show ?thesis using roundDouble_neg [of "of_int (- p)"] by simp
  qed
qed

text \<open>The double nearest to one tenth, and a tie that goes to the even neighbour.\<close>

lemma roundDouble_examples:
  "roundDouble (1 / 10) = Finite (3602879701896397 / 36028797018963968)"
  "roundDouble (2 ^ 53 + 1) = Finite (2 ^ 53)"
  by code_simp+



section \<open>Properties of the storage API\<close>

lemma roundDouble_3600: "roundDouble 3600 = Finite 3600"
  using roundDouble_int_exact [of 3600] by simp

text \<open>One grant and one transfer against the example backend, in any world.\<close>

lemma demoNet_getUploadUrl:
  "getUploadUrl demoCoerce demoNet fileName fileType w =
     (Inr \<lparr>uploadUrl = Str (''U'' @ replicate (length (requests w)) (CHR ''+'')),
           fileUrl = Str (''F'' @ replicate (length (requests w)) (CHR ''+'')),
           expiresInSeconds = Finite 3600\<rparr>,
      w\<lparr>requests := requests w @ [ApiRequest POST ''/s3/upload-url''
           (uploadUrlBody fileName fileType) (requestInterceptor w)]\<rparr>)"
  by (simp add: getUploadUrl_def apiClient_request_def demoNet_def Let_def js_or_def
      roundDouble_3600)

lemma demoNet_uploadFile:
  "uploadFile demoNet url f w =
     (if file_name f = ''broken.png'' then Inl (UploadFailed 500) else Inr (),
      w\<lparr>requests := requests w @ [FetchPut url (file_type f) f]\<rparr>)"
  by (simp add: uploadFile_def demoNet_def Let_def)

lemmas demo_defs = handleFileUpload_def demoNet_getUploadUrl demoNet_uploadFile
  world0_def fileA_def fileBroken_def fileC_def addToState_def uploaded_def

text \<open>
  C4 (the code departs from the claim): a name without a dot has no extension, and the
  claim wants the empty string sent with the upload-grant request. The code sends the
  whole lower-cased name, because \<open>split\<close> returns the name itself as its only piece.
  For a name with a dot the code does what the claim says (\<open>getFileExtension_dot\<close>).
\<close>

theorem getFileExtension_README:
  "getFileExtension ''README'' = ''readme''
   \<and> uploadUrlBody ''README'' ''text/plain'' =
       Obj [(''fileType'', Str ''AUDIO''), (''fileExtension'', Str ''readme'')]"
  by code_simp

lemma getUploadUrl_requests:
  "requests (snd (getUploadUrl coerce net fileName fileType w)) =
     requests w @ [ApiRequest POST ''/s3/upload-url'' (uploadUrlBody fileName fileType)
                     (requestInterceptor w)]"
  by (auto simp: getUploadUrl_def apiClient_request_def responseErrorInterceptor_def Let_def
      removeItems_def split: reply.splits prod.splits sum.splits option.splits)

text \<open>
  C9: the bucket is IMAGE exactly when the MIME type starts with \<open>image/\<close>, and AUDIO for
  every other string; it is what the \<open>fileType\<close> field of the grant request's body
  carries, and that request is the one \<open>getUploadUrl\<close> sends.
\<close>

theorem getFileType_bucket:
  "getFileType m = (if (\<exists>rest. m = ''image/'' @ rest) then IMAGE else AUDIO)
   \<and> getProp (uploadUrlBody n m) ''fileType'' =
       Inr (Str (if (\<exists>rest. m = ''image/'' @ rest) then ''IMAGE'' else ''AUDIO''))
   \<and> requests (snd (getUploadUrl coerce net n m w)) =
       requests w @ [ApiRequest POST ''/s3/upload-url'' (uploadUrlBody n m)
                       (requestInterceptor w)]"
  by (simp add: getFileType_def startsWith_iff uploadUrlBody_def Let_def getUploadUrl_requests)

lemma getFileType_examples:
  "getFileType ''image/jpeg'' = IMAGE" "getFileType ''video/mp4'' = AUDIO"
  "getFileType ''application/pdf'' = AUDIO" "getFileType [] = AUDIO"
  "getFileType ''image'' = AUDIO"
  "getProp (uploadUrlBody ''clip.mp4'' ''video/mp4'') ''fileType'' = Inr (Str ''AUDIO'')"
  by (simp_all add: getFileType_def uploadUrlBody_def)

lemma truthy_stringOrAbsent: "stringOrAbsent v \<Longrightarrow> truthy v = presentAndNonEmpty v"
  by (cases v) (auto simp: presentAndNonEmpty_def)

lemma getProp_Inr_all: "getProp data k = Inr v \<Longrightarrow> \<exists>v'. getProp data k' = Inr v'"
  by (cases data) (auto split: option.splits)

lemma getUploadUrl_ok:
  assumes "net (requests w) (ApiRequest POST ''/s3/upload-url'' (uploadUrlBody fileName fileType)
             (requestInterceptor w)) = HttpResponse status data"
    and "200 \<le> status" and "status < 300"
    and "getProp data ''uploadUrl'' = Inr u"
    and "getProp data ''s3Url'' = Inr a"
    and "getProp data ''fileUrl'' = Inr b"
    and "getProp data ''downloadUrl'' = Inr c"
    and "getProp data ''expiresInMinutes'' = Inr m"
  shows "getUploadUrl coerce net fileName fileType w =
           (Inr \<lparr>uploadUrl = u, fileUrl = js_or (js_or a b) c,
                 expiresInSeconds = js_times (toNumber coerce m) (Finite 60)\<rparr>,
            w\<lparr>requests := requests w @ [ApiRequest POST ''/s3/upload-url''
                 (uploadUrlBody fileName fileType) (requestInterceptor w)]\<rparr>)"
  using assms by (simp add: getUploadUrl_def apiClient_request_def Let_def)

text \<open>
  C6: when the grant request is answered with a success status and the three URL fields
  of the answer hold strings or nothing, the \<open>fileUrl\<close> that \<open>getUploadUrl\<close> returns is
  the first of \<open>s3Url\<close>, \<open>fileUrl\<close>, \<open>downloadUrl\<close> that is present and non-empty.
\<close>

theorem getUploadUrl_fileUrl_priority:
  assumes "net (requests w) (ApiRequest POST ''/s3/upload-url'' (uploadUrlBody fileName fileType)
             (requestInterceptor w)) = HttpResponse status data"
    and "200 \<le> status" and "status < 300"
    and "getProp data ''s3Url'' = Inr a"
    and "getProp data ''fileUrl'' = Inr b"
    and "getProp data ''downloadUrl'' = Inr c"
    and "stringOrAbsent a" and "stringOrAbsent b" and "stringOrAbsent c"
    and "find presentAndNonEmpty [a, b, c] = Some url"
  shows "\<exists>r. fst (getUploadUrl coerce net fileName fileType w) = Inr r \<and> fileUrl r = url"
proof -
  obtain u where u: "getProp data ''uploadUrl'' = Inr u"
    using assms(4) getProp_Inr_all by blast
  obtain m where m: "getProp data ''expiresInMinutes'' = Inr m"
    using assms(4) getProp_Inr_all by blast
  have "js_or (js_or a b) c = url"
    using assms(7-10) by (auto simp: js_or_def truthy_stringOrAbsent split: if_splits)
  moreover have "fst (getUploadUrl coerce net fileName fileType w) =
      Inr \<lparr>uploadUrl = u, fileUrl = js_or (js_or a b) c,
           expiresInSeconds = js_times (toNumber coerce m) (Finite 60)\<rparr>"
    using assms(1-6) u m by (simp add: getUploadUrl_ok)
  ultimately show ?thesis by simp
qed

text \<open>
  The grant \<open>{uploadUrl: "U", fileUrl: "F", expiresInMinutes: 60}\<close> for \<open>photo.JPG\<close>:
  \<open>s3Url\<close> is absent, \<open>fileUrl\<close> is taken.
\<close>

theorem getUploadUrl_fileUrl_priority_witness:
  "demoNet (requests world0) (ApiRequest POST ''/s3/upload-url''
       (uploadUrlBody ''photo.JPG'' ''image/jpeg'') (requestInterceptor world0))
     = HttpResponse 200
         (Obj [(''uploadUrl'', Str ''U''), (''fileUrl'', Str ''F''), (''expiresInMinutes'', Num 60)])
   \<and> find presentAndNonEmpty [Undefined, Str ''F'', Undefined] = Some (Str ''F'')
   \<and> (\<exists>r. fst (getUploadUrl demoCoerce demoNet ''photo.JPG'' ''image/jpeg'' world0) = Inr r
          \<and> fileUrl r = Str ''F'')"
  using getUploadUrl_fileUrl_priority [where net = demoNet and w = world0
      and fileName = "''photo.JPG''" and fileType = "''image/jpeg''" and status = 200
      and data = "Obj [(''uploadUrl'', Str ''U''), (''fileUrl'', Str ''F''),
                       (''expiresInMinutes'', Num 60)]"
      and a = Undefined and b = "Str ''F''" and c = Undefined and url = "Str ''F''"
      and coerce = demoCoerce]
  by (simp add: demoNet_def world0_def presentAndNonEmpty_def)




text \<open>
  C7: \<open>fileExists\<close> never throws. It resolves to \<open>false\<close> when no response arrives and
  when the status is outside 200 to 299, whatever the error handler of the client throws;
  otherwise it resolves to the \<open>exists\<close> field of the answer.
\<close>

theorem fileExists_fail_safe:
  "(\<exists>v. fst (fileExists net url w) = Inr v)
   \<and> fst (fileExists net url w) =
       (case net (requests w) (ApiRequest GET ''/s3/file-exists'' (Obj [(''s3Url'', Str url)])
                                (requestInterceptor w)) of
          NetworkFailure \<Rightarrow> Inr (Bool False)
        | HttpResponse status data \<Rightarrow>
            if 200 \<le> status \<and> status < 300
            then (case getProp data ''exists'' of Inl e \<Rightarrow> Inr (Bool False) | Inr v \<Rightarrow> Inr v)
            else Inr (Bool False))"
  by (simp add: fileExists_def apiClient_request_def Let_def
      split: reply.splits prod.splits sum.splits)

section \<open>Properties of the API client\<close>

lemma responseErrorInterceptor_401:
  "snd (responseErrorInterceptor (Some (401, data)) w) = (removeItems w)\<lparr>href := ''/login''\<rparr>"
  by (simp add: responseErrorInterceptor_def Let_def split: sum.splits)

lemma restore_no_token:
  "localStorage w ''safesnap_token'' = None \<Longrightarrow>
   restore JSON_parse w = w\<lparr>isLoading := False\<rparr>"
  by (simp add: restore_def)

text \<open>
  C3, as the code has it: a call through the client, of any method, to any path and with
  any payload, that is answered with status 401 ends in an error, with both persisted
  entries removed and the address set to \<open>/login\<close>. The handler leaves the in-memory
  user as it was; it is the page load at the new address that starts with a \<open>null\<close>
  user and a session that is not authenticated.
\<close>

theorem unauthorized_clears_session:
  assumes "net (requests w) (ApiRequest m path payload (requestInterceptor w))
             = HttpResponse 401 data"
  shows "(\<exists>e. fst (apiClient_request net m path payload w) = Inl e)
    \<and> localStorage (snd (apiClient_request net m path payload w)) ''safesnap_token'' = None
    \<and> localStorage (snd (apiClient_request net m path payload w)) ''safesnap_user'' = None
    \<and> href (snd (apiClient_request net m path payload w)) = ''/login''
    \<and> user (snd (apiClient_request net m path payload w)) = user w
    \<and> user (pageLoad JSON_parse (snd (apiClient_request net m path payload w))) = Null
    \<and> \<not> isAuthenticated (pageLoad JSON_parse (snd (apiClient_request net m path payload w)))"
proof -
  let ?w1 = "w\<lparr>requests := requests w @ [ApiRequest m path payload (requestInterceptor w)]\<rparr>"
  have r: "apiClient_request net m path payload w =
      (Inl (fst (responseErrorInterceptor (Some (401, data)) ?w1)),
       (removeItems ?w1)\<lparr>href := ''/login''\<rparr>)"
    using assms
    by (simp add: apiClient_request_def Let_def case_prod_beta responseErrorInterceptor_401)
  show ?thesis
    unfolding r
    by (simp add: removeItems_def isAuthenticated_def pageLoad_def initialState_def
        restore_no_token)
qed

text \<open>A signed-in worker lists their incidents and is answered 401.\<close>

theorem unauthorized_clears_session_witness:
  "unauthorizedNet (requests (login demoStringify ''T1'' demoUser world0))
        (ApiRequest GET ''/incidents/frontend'' Undefined
           (requestInterceptor (login demoStringify ''T1'' demoUser world0)))
       = HttpResponse 401 (Obj [(''message'', Str ''Unauthorized'')])
   \<and> localStorage (login demoStringify ''T1'' demoUser world0) ''safesnap_token'' = Some ''T1''
   \<and> localStorage (snd (apiClient_request unauthorizedNet GET ''/incidents/frontend'' Undefined
        (login demoStringify ''T1'' demoUser world0))) ''safesnap_token'' = None
   \<and> localStorage (snd (apiClient_request unauthorizedNet GET ''/incidents/frontend'' Undefined
        (login demoStringify ''T1'' demoUser world0))) ''safesnap_user'' = None
   \<and> href (snd (apiClient_request unauthorizedNet GET ''/incidents/frontend'' Undefined
        (login demoStringify ''T1'' demoUser world0))) = ''/login''
   \<and> user (pageLoad demoParse (snd (apiClient_request unauthorizedNet GET ''/incidents/frontend''
        Undefined (login demoStringify ''T1'' demoUser world0)))) = Null"
  using unauthorized_clears_session [where net = unauthorizedNet
      and w = "login demoStringify ''T1'' demoUser world0" and m = GET
      and path = "''/incidents/frontend''" and payload = Undefined
      and data = "Obj [(''message'', Str ''Unauthorized'')]" and JSON_parse = demoParse]
  by (simp add: unauthorizedNet_def login_def)

text \<open>
  C3 as stated fails: after the handler has run on a 401, the in-memory user is still
  the signed-in identity, not \<open>null\<close>.
\<close>

theorem unauthorized_keeps_memory_user:
  "user (login demoStringify ''T1'' demoUser world0) = User_obj demoUser
   \<and> user (snd (apiClient_request unauthorizedNet GET ''/incidents/frontend'' Undefined
        (login demoStringify ''T1'' demoUser world0))) = User_obj demoUser
   \<and> User_obj demoUser \<noteq> Null"
  by (simp add: apiClient_request_def responseErrorInterceptor_def unauthorizedNet_def
      login_def removeItems_def User_obj_def Let_def)

section \<open>Properties of the session\<close>

lemma truthyProp_hasProp: "truthyProp v k \<Longrightarrow> hasProp v k"
  by (cases v) (auto simp: truthyProp_def hasProp_def split: option.splits)

lemma User_obj_valid:
  "truthy (User_obj u) \<and> typeof_object (User_obj u)
   \<and> truthyProp (User_obj u) ''id'' = (id_user u \<noteq> 0)
   \<and> truthyProp (User_obj u) ''email'' = (email u \<noteq> [])
   \<and> truthyProp (User_obj u) ''role''"
  by (cases "role u") (simp_all add: User_obj_def truthyProp_def)

text \<open>
  C1, as the code has it: for a persisted pair with an entry missing, or a user blob that
  does not parse or that lacks one of \<open>id\<close>, \<open>email\<close>, \<open>role\<close>, the mount effect leaves
  the user \<open>null\<close> and the session not authenticated. It removes both entries when both
  were stored and non-empty, and leaves the storage as it was otherwise.
\<close>

theorem restore_fails_closed:
  assumes "user w = Null" and "persistedSessionInvalid JSON_parse w"
  shows "user (restore JSON_parse w) = Null
    \<and> \<not> isAuthenticated (restore JSON_parse w)
    \<and> localStorage (restore JSON_parse w) =
        (if bothStored w
         then (localStorage w)(''safesnap_token'' := None, ''safesnap_user'' := None)
         else localStorage w)"
  using assms
  by (auto simp: restore_def persistedSessionInvalid_def bothStored_def isAuthenticated_def
      removeItems_def Let_def dest: truthyProp_hasProp split: option.splits)

theorem restore_fails_closed_witness:
  "user corruptWorld = Null \<and> persistedSessionInvalid demoParse corruptWorld
   \<and> bothStored corruptWorld
   \<and> user (restore demoParse corruptWorld) = Null
   \<and> localStorage (restore demoParse corruptWorld) ''safesnap_token'' = None
   \<and> localStorage (restore demoParse corruptWorld) ''safesnap_user'' = None"
  using restore_fails_closed [of corruptWorld demoParse]
  by (simp add: corruptWorld_def world0_def persistedSessionInvalid_def bothStored_def
      demoParse_def demoUserJson_def zeroIdUserJson_def noEmailUserJson_def)

text \<open>
  C1 as stated fails: with the token stored and the user entry missing, the token is
  still in the storage after the mount effect.
\<close>

theorem restore_keeps_lone_token:
  "localStorage loneTokenWorld ''safesnap_user'' = None
   \<and> persistedSessionInvalid demoParse loneTokenWorld
   \<and> localStorage (restore demoParse loneTokenWorld) ''safesnap_token'' = Some ''T1''"
  by (simp add: loneTokenWorld_def world0_def restore_def persistedSessionInvalid_def)

text \<open>
  C5, as the code has it: for a non-empty token and an identity with a non-zero id and a
  non-empty email, on a platform whose \<open>JSON.parse\<close> gives back the object that
  \<open>JSON.stringify\<close> wrote (as a non-empty text), \<open>login\<close> followed by a page load
  restores an identity equal to the one passed to \<open>login\<close>.
\<close>

theorem login_then_restore:
  assumes "JSON_parse (JSON_stringify (User_obj u)) = Some (User_obj u)"
    and "JSON_stringify (User_obj u) \<noteq> []"
    and "token \<noteq> []" and "id_user u \<noteq> 0" and "email u \<noteq> []"
  shows "user (pageLoad JSON_parse (login JSON_stringify token u w)) = User_obj u
    \<and> isAuthenticated (pageLoad JSON_parse (login JSON_stringify token u w))"
  using assms User_obj_valid [of u]
  by (simp add: pageLoad_def initialState_def login_def restore_def isAuthenticated_def)

theorem login_then_restore_witness:
  "demoParse (demoStringify (User_obj demoUser)) = Some (User_obj demoUser)
   \<and> demoStringify (User_obj demoUser) \<noteq> []
   \<and> user (pageLoad demoParse (login demoStringify ''T1'' demoUser world0)) = User_obj demoUser"
  using login_then_restore [of demoParse demoStringify demoUser "''T1''" world0]
  by (simp add: demoParse_def demoStringify_def demoUser_def demoUserJson_def)

text \<open>
  Whatever the platform's \<open>JSON\<close> functions are, an empty token, a zero id or an empty
  email ends in a \<open>null\<close> user after the page load.
\<close>

lemma login_then_restore_falsy:
  assumes "JSON_parse (JSON_stringify (User_obj u)) = Some (User_obj u)"
    and "token = [] \<or> id_user u = 0 \<or> email u = []"
  shows "user (pageLoad JSON_parse (login JSON_stringify token u w)) = Null"
  using assms User_obj_valid [of u]
  by (auto simp: pageLoad_def initialState_def login_def restore_def removeItems_def)

text \<open>
  C5 as stated fails: an identity with id 0 (and likewise one with an empty email, or
  any identity under an empty token) has all three properties and is written and parsed
  back intact, yet the page load leaves the user \<open>null\<close>.
\<close>

theorem login_then_restore_zero_id:
  "demoParse (demoStringify (User_obj zeroIdUser)) = Some (User_obj zeroIdUser)
   \<and> hasProp (User_obj zeroIdUser) ''id'' \<and> hasProp (User_obj zeroIdUser) ''email''
   \<and> hasProp (User_obj zeroIdUser) ''role''
   \<and> user (pageLoad demoParse (login demoStringify ''T1'' zeroIdUser world0)) = Null
   \<and> user (pageLoad demoParse (login demoStringify ''T1'' noEmailUser world0)) = Null
   \<and> user (pageLoad demoParse (login demoStringify [] demoUser world0)) = Null
   \<and> User_obj zeroIdUser \<noteq> Null"
  using login_then_restore_falsy [of demoParse demoStringify zeroIdUser "''T1''" world0]
    login_then_restore_falsy [of demoParse demoStringify noEmailUser "''T1''" world0]
    login_then_restore_falsy [of demoParse demoStringify demoUser "[]" world0]
  by (simp add: demoParse_def demoStringify_def zeroIdUser_def demoUser_def noEmailUser_def
      User_obj_def hasProp_def demoUserJson_def zeroIdUserJson_def noEmailUserJson_def)

section \<open>Properties of the upload form\<close>

lemma count_list_filter_neq:
  "v \<noteq> url \<Longrightarrow> count_list (filter (\<lambda>u. u \<noteq> url) xs) v = count_list xs v"
  by (induction xs) auto

lemma length_filter_neq_distinct:
  "distinct xs \<Longrightarrow> url \<in> set xs \<Longrightarrow> Suc (length (filter (\<lambda>u. u \<noteq> url) xs)) = length xs"
proof (induction xs)
  case Nil
  then show ?case by simp
next
  case (Cons x xs)
  show ?case
  proof (cases "x = url")
    case True
    with Cons.prems have "url \<notin> set xs" by simp
    then have "filter (\<lambda>u. u \<noteq> url) xs = xs" by (auto simp: filter_id_conv)
    with True show ?thesis by simp
  next
    case False
    with Cons show ?thesis by simp
  qed
qed

text \<open>
  C8: removing a URL that is in the uploaded-images list leaves no element equal to it,
  keeps every other element as often as it was there and in the same order (one element
  fewer when the list had no duplicates), and touches nothing else: no request is sent,
  the audio list and the storage stay as they were.
\<close>

theorem removeFile_exact:
  assumes "url \<in> set (uploadedImages w)"
  shows "url \<notin> set (uploadedImages (removeFile url image w))
    \<and> set (uploadedImages (removeFile url image w)) = set (uploadedImages w) - {url}
    \<and> (\<forall>v. v \<noteq> url \<longrightarrow>
          count_list (uploadedImages (removeFile url image w)) v = count_list (uploadedImages w) v)
    \<and> subseq (uploadedImages (removeFile url image w)) (uploadedImages w)
    \<and> (distinct (uploadedImages w) \<longrightarrow>
          length (uploadedImages (removeFile url image w)) + 1 = length (uploadedImages w))
    \<and> requests (removeFile url image w) = requests w
    \<and> uploadedAudio (removeFile url image w) = uploadedAudio w
    \<and> localStorage (removeFile url image w) = localStorage w"
  using assms
  by (auto simp: removeFile_def count_list_filter_neq length_filter_neq_distinct)

theorem removeFile_exact_witness:
  "Str ''b'' \<in> set (uploadedImages (world0\<lparr>uploadedImages := [Str ''a'', Str ''b'', Str ''c'']\<rparr>))
   \<and> uploadedImages (removeFile (Str ''b'') image
        (world0\<lparr>uploadedImages := [Str ''a'', Str ''b'', Str ''c'']\<rparr>)) = [Str ''a'', Str ''c'']
   \<and> Str ''b'' \<notin> set (uploadedImages (removeFile (Str ''b'') image
        (world0\<lparr>uploadedImages := [Str ''a'', Str ''b'', Str ''c'']\<rparr>)))"
  using removeFile_exact [of "Str ''b''" "world0\<lparr>uploadedImages := [Str ''a'', Str ''b'', Str ''c'']\<rparr>"]
  by (simp add: removeFile_def)

lemma getUploadUrl_state:
  "getUploadUrl coerce net fileName fileType w = (r, w1) \<Longrightarrow>
     \<exists>req. w1 = w\<lparr>requests := requests w @ [req]\<rparr> \<or>
           w1 = (removeItems (w\<lparr>requests := requests w @ [req]\<rparr>))\<lparr>href := ''/login''\<rparr>"
  by (auto simp: getUploadUrl_def apiClient_request_def responseErrorInterceptor_def Let_def
      split: reply.splits prod.splits sum.splits if_splits)

lemma getUploadUrl_page:
  assumes "getUploadUrl coerce net fileName fileType w = (r, w1)"
  shows "uploadedImages w1 = uploadedImages w \<and> uploadedAudio w1 = uploadedAudio w
     \<and> isUploading w1 = isUploading w \<and> rootError w1 = rootError w
     \<and> length (requests w1) = Suc (length (requests w))"
  using getUploadUrl_state [OF assms] by (auto simp: removeItems_def)

lemma uploadFile_page:
  assumes "uploadFile net url f w = (r, w1)"
  shows "uploadedImages w1 = uploadedImages w \<and> uploadedAudio w1 = uploadedAudio w
     \<and> isUploading w1 = isUploading w \<and> rootError w1 = rootError w
     \<and> requests w1 = requests w @ [FetchPut url (file_type f) f]"
  using assms by (auto simp: uploadFile_def Let_def split: reply.splits if_splits)

lemma uploadLoop_append:
  "uploadLoop coerce net (xs @ ys) t w =
     (case uploadLoop coerce net xs t w of
        (Inl e, w1) \<Rightarrow> (Inl e, w1)
      | (Inr u, w1) \<Rightarrow> uploadLoop coerce net ys t w1)"
  by (induction xs arbitrary: w) (auto split: prod.splits sum.splits)

lemma uploadLoop_take_success:
  assumes "uploadLoop coerce net xs t w = (Inr u, w1)"
  shows "fst (uploadLoop coerce net (take i xs) t w) = Inr ()"
proof -
  have "uploadLoop coerce net (take i xs @ drop i xs) t w = (Inr u, w1)"
    using assms by simp
  then show ?thesis
    unfolding uploadLoop_append by (auto split: prod.splits sum.splits)
qed

text \<open>
  A run of the loop that succeeds on \<open>xs\<close>: the URL appended for the file at position
  \<open>i\<close> is the one granted to it in the world that the loop has reached after the
  \<open>i\<close> files before it.
\<close>

lemma uploadLoop_success:
  "uploadLoop coerce net xs t w = (Inr u, w1) \<Longrightarrow>
     \<exists>urls. uploaded t w1 = uploaded t w @ urls \<and> length urls = length xs
        \<and> (\<forall>i<length xs. \<exists>grant.
              fst (getUploadUrl coerce net (file_name (xs ! i)) (file_type (xs ! i))
                     (snd (uploadLoop coerce net (take i xs) t w))) = Inr grant
              \<and> fst (uploadFile net (uploadUrl grant) (xs ! i)
                     (snd (getUploadUrl coerce net (file_name (xs ! i)) (file_type (xs ! i))
                        (snd (uploadLoop coerce net (take i xs) t w))))) = Inr ()
              \<and> urls ! i = fileUrl grant)
        \<and> isUploading w1 = isUploading w
        \<and> length (requests w1) = length (requests w) + 2 * length xs"
proof (induction xs arbitrary: w1 u rule: rev_induct)
  case Nil
  then show ?case by simp
next
  case (snoc x xs)
  from snoc.prems obtain wa grant wb wc where
    l: "uploadLoop coerce net xs t w = (Inr (), wa)" and
    g: "getUploadUrl coerce net (file_name x) (file_type x) wa = (Inr grant, wb)" and
    p: "uploadFile net (uploadUrl grant) x wb = (Inr (), wc)" and
    w1: "w1 = addToState t (fileUrl grant) wc"
    unfolding uploadLoop_append by (auto split: prod.splits sum.splits)
  from snoc.IH [OF l] obtain urls where
    u: "uploaded t wa = uploaded t w @ urls" and
    n: "length urls = length xs" and
    a: "\<forall>i<length xs. \<exists>grant.
              fst (getUploadUrl coerce net (file_name (xs ! i)) (file_type (xs ! i))
                     (snd (uploadLoop coerce net (take i xs) t w))) = Inr grant
              \<and> fst (uploadFile net (uploadUrl grant) (xs ! i)
                     (snd (getUploadUrl coerce net (file_name (xs ! i)) (file_type (xs ! i))
                        (snd (uploadLoop coerce net (take i xs) t w))))) = Inr ()
              \<and> urls ! i = fileUrl grant" and
    i: "isUploading wa = isUploading w" and
    r: "length (requests wa) = length (requests w) + 2 * length xs"
    by blast
  note gp = getUploadUrl_page [OF g] and pp = uploadFile_page [OF p]
  have 1: "uploaded t w1 = uploaded t w @ (urls @ [fileUrl grant])"
    using u gp pp w1 by (cases t) (simp_all add: uploaded_def addToState_def)
  have 2: "length (urls @ [fileUrl grant]) = length (xs @ [x])"
    using n by simp
  have 3: "\<exists>grant'.
        fst (getUploadUrl coerce net (file_name ((xs @ [x]) ! i)) (file_type ((xs @ [x]) ! i))
               (snd (uploadLoop coerce net (take i (xs @ [x])) t w))) = Inr grant'
        \<and> fst (uploadFile net (uploadUrl grant') ((xs @ [x]) ! i)
               (snd (getUploadUrl coerce net (file_name ((xs @ [x]) ! i))
                  (file_type ((xs @ [x]) ! i))
                  (snd (uploadLoop coerce net (take i (xs @ [x])) t w))))) = Inr ()
        \<and> (urls @ [fileUrl grant]) ! i = fileUrl grant'"
    if "i < length (xs @ [x])" for i
  proof (cases "i < length xs")
    case True
    with a n show ?thesis by (simp add: nth_append)
  next
    case False
    with that have "i = length xs" by simp
    with l g p n show ?thesis by (simp add: nth_append)
  qed
  have 4: "isUploading w1 = isUploading w"
    using i gp pp w1 by (cases t) (simp_all add: addToState_def)
  have 5: "length (requests w1) = length (requests w) + 2 * length (xs @ [x])"
    using r gp pp w1 by (cases t) (simp_all add: addToState_def)
  from 1 2 3 4 5 show ?case by blast
qed

text \<open>
  C2, as the code has it: when the files before position k upload and the file at
  position k is granted an address but fails at the direct transfer, the result list
  gains exactly one URL for each file before k, in submission order: the one granted
  to that file when the loop reached it. The failed transfer is the last request sent,
  so no file after k is attempted. The uploading flag is true up to that transfer and
  false in the end, where the form carries the one generic message.
\<close>

theorem handleFileUpload_stops_at_failure:
  fixes net :: network and before after :: "File list" and failing :: File
    and t :: upload_kind and w :: world and coerce :: coercion
  defines "w1 \<equiv> snd (uploadLoop coerce net before t (w\<lparr>isUploading := True\<rparr>))"
  defines "granted \<equiv> getUploadUrl coerce net (file_name failing) (file_type failing) w1"
  defines "final \<equiv> handleFileUpload coerce net (Some (before @ failing # after)) t w"
  assumes ok: "fst (uploadLoop coerce net before t (w\<lparr>isUploading := True\<rparr>)) = Inr ()"
    and grant: "fst granted = Inr grant"
    and put: "fst (uploadFile net (uploadUrl grant) failing (snd granted)) = Inl e"
  shows "(\<exists>urls. uploaded t final = uploaded t w @ urls \<and> length urls = length before
            \<and> (\<forall>i<length before. \<exists>grant.
                 fst (getUploadUrl coerce net (file_name (before ! i)) (file_type (before ! i))
                        (snd (uploadLoop coerce net (take i before) t
                                (w\<lparr>isUploading := True\<rparr>)))) = Inr grant
                 \<and> fst (uploadFile net (uploadUrl grant) (before ! i)
                        (snd (getUploadUrl coerce net (file_name (before ! i))
                           (file_type (before ! i))
                           (snd (uploadLoop coerce net (take i before) t
                                   (w\<lparr>isUploading := True\<rparr>)))))) = Inr ()
                 \<and> urls ! i = fileUrl grant))
      \<and> requests final
          = requests (snd granted) @ [FetchPut (uploadUrl grant) (file_type failing) failing]
      \<and> length (requests final) = length (requests w) + 2 * length before + 2
      \<and> isUploading w1 \<and> isUploading (snd granted) \<and> \<not> isUploading final
      \<and> rootError final = Some ''Failed to upload files. Please try again.''"
proof -
  let ?w0 = "w\<lparr>isUploading := True\<rparr>"
  have L: "uploadLoop coerce net before t ?w0 = (Inr (), w1)"
    using ok by (simp add: w1_def prod_eq_iff)
  obtain w2 where
    G: "getUploadUrl coerce net (file_name failing) (file_type failing) w1 = (Inr grant, w2)"
    using grant by (cases granted) (simp add: granted_def)
  then have w2: "snd granted = w2" by (simp add: granted_def)
  obtain w3 where P: "uploadFile net (uploadUrl grant) failing w2 = (Inl e, w3)"
    using put w2 by (cases "uploadFile net (uploadUrl grant) failing w2") simp
  have loop: "uploadLoop coerce net (before @ failing # after) t ?w0 = (Inl e, w3)"
    using L G P by (simp add: uploadLoop_append)
  have H: "final =
      w3\<lparr>rootError := Some ''Failed to upload files. Please try again.'', isUploading := False\<rparr>"
    using loop by (simp add: final_def handleFileUpload_def)
  from uploadLoop_success [OF L] obtain urls where
    u: "uploaded t w1 = uploaded t ?w0 @ urls" and
    n: "length urls = length before" and
    a: "\<forall>i<length before. \<exists>grant.
                 fst (getUploadUrl coerce net (file_name (before ! i)) (file_type (before ! i))
                        (snd (uploadLoop coerce net (take i before) t ?w0))) = Inr grant
                 \<and> fst (uploadFile net (uploadUrl grant) (before ! i)
                        (snd (getUploadUrl coerce net (file_name (before ! i))
                           (file_type (before ! i))
                           (snd (uploadLoop coerce net (take i before) t ?w0))))) = Inr ()
                 \<and> urls ! i = fileUrl grant" and
    i: "isUploading w1 = isUploading ?w0" and
    r: "length (requests w1) = length (requests ?w0) + 2 * length before"
    by blast
  note g = getUploadUrl_page [OF G] and p = uploadFile_page [OF P]
  have "uploaded t final = uploaded t w @ urls"
    using u g p H by (cases t) (simp_all add: uploaded_def)
  with n a have 1: "\<exists>urls. uploaded t final = uploaded t w @ urls \<and> length urls = length before
            \<and> (\<forall>i<length before. \<exists>grant.
                 fst (getUploadUrl coerce net (file_name (before ! i)) (file_type (before ! i))
                        (snd (uploadLoop coerce net (take i before) t ?w0))) = Inr grant
                 \<and> fst (uploadFile net (uploadUrl grant) (before ! i)
                        (snd (getUploadUrl coerce net (file_name (before ! i))
                           (file_type (before ! i))
                           (snd (uploadLoop coerce net (take i before) t ?w0))))) = Inr ()
                 \<and> urls ! i = fileUrl grant)"
    by blast
  have 2: "requests final
          = requests (snd granted) @ [FetchPut (uploadUrl grant) (file_type failing) failing]"
    using H p w2 by simp
  have 3: "length (requests final) = length (requests w) + 2 * length before + 2"
    using H p g r by simp
  have 4: "isUploading w1" using i by simp
  have 5: "isUploading (snd granted)" using i g w2 by simp
  have 6: "\<not> isUploading final" using H by simp
  have 7: "rootError final = Some ''Failed to upload files. Please try again.''"
    using H by simp
  from 1 2 3 4 5 6 7 show ?thesis by blast
qed

text \<open>
  Two files before the failing one: the result list is the two URLs granted in this
  run, \<open>F\<close> and \<open>F++\<close>, in that order.
\<close>

theorem handleFileUpload_stops_at_failure_witness:
  "fst (uploadLoop demoCoerce demoNet [fileA, fileC] image (world0\<lparr>isUploading := True\<rparr>))
     = Inr ()
   \<and> uploaded image
        (handleFileUpload demoCoerce demoNet (Some ([fileA, fileC] @ fileBroken # [fileC]))
           image world0)
       = [Str ''F'', Str ''F++'']
   \<and> length (requests
        (handleFileUpload demoCoerce demoNet (Some ([fileA, fileC] @ fileBroken # [fileC]))
           image world0))
       = 6
   \<and> isUploading
        (handleFileUpload demoCoerce demoNet (Some ([fileA, fileC] @ fileBroken # [fileC]))
           image world0)
       = False"
  using handleFileUpload_stops_at_failure [where net = demoNet and before = "[fileA, fileC]"
      and t = image and w = world0 and failing = fileBroken and after = "[fileC]"
      and coerce = demoCoerce
      and grant = "\<lparr>uploadUrl = Str ''U++++'', fileUrl = Str ''F++++'',
                     expiresInSeconds = Finite 3600\<rparr>"
      and e = "UploadFailed 500"]
  by (simp add: demo_defs)

text \<open>
  C2 as stated fails: of three files of which the second fails at the transfer, only
  the first is uploaded. The third, which uploads when the failing one is not in the
  batch, is never requested, and the uploading flag is false although it has reached
  no terminal state.
\<close>

theorem handleFileUpload_skips_later_files:
  "fst (uploadLoop demoCoerce demoNet [fileBroken] image world0) = Inl (UploadFailed 500)
   \<and> uploadedImages (handleFileUpload demoCoerce demoNet (Some [fileA, fileC]) image world0)
       = [Str ''F'', Str ''F++'']
   \<and> uploadedImages (handleFileUpload demoCoerce demoNet (Some [fileA, fileBroken, fileC]) image world0)
       = [Str ''F'']
   \<and> length (requests (handleFileUpload demoCoerce demoNet (Some [fileA, fileBroken, fileC]) image world0))
       = 4
   \<and> isUploading (handleFileUpload demoCoerce demoNet (Some [fileA, fileBroken, fileC]) image world0)
       = False"
  by (simp add: demo_defs)


end
